theory Spec2Isabelle
  imports Main "HOL-Library.AList"
begin

section \<open>Values, exceptions and constants\<close>

text \<open>
  The client is dynamically typed: whatever the device sends is kept as the value the
  JSON decoder produced. \<open>JNull\<close> is Python's \<open>None\<close>, \<open>JObj\<close> a \<open>dict\<close> with string keys
  (an association list, looked up with \<open>map_of\<close>), \<open>JArr\<close> a \<open>list\<close>. JSON numbers with a
  fraction or an exponent (Python floats) are outside the model.
\<close>

datatype json =
    JNull
  | JBool bool
  | JInt int
  | JStr string
  | JArr "json list"
  | JObj "(string \<times> json) list"

text \<open>
  Exceptions. \<open>SonoffDIYError\<close> carries its message and, when the code passes one, its
  second argument (the diagnostic payload). \<open>SonoffDIYConnectionError\<close> is a subclass of
  \<open>SonoffDIYError\<close> in \<open>exceptions.py\<close>, so an \<open>except SonoffDIYError\<close> clause catches both.
  \<open>PyExc\<close> stands for the built-in exceptions the interpreter or a library raises on its own;
  \<open>DecodeError\<close> is what \<open>json.loads\<close> or \<open>response.json()\<close> raise on a text that is not
  JSON. None of them is a \<open>SonoffDIYError\<close>.
\<close>

datatype py_exc = TypeError | ValueError | AttributeError | DecodeError

datatype exn =
    SonoffDIYError string "json option"
  | SonoffDIYConnectionError string
  | PyExc py_exc

fun is_SonoffDIYError :: "exn \<Rightarrow> bool" where
  "is_SonoffDIYError (SonoffDIYError msg payload) = True"
| "is_SonoffDIYError (SonoffDIYConnectionError msg) = True"
| "is_SonoffDIYError (PyExc e) = False"

subsection \<open>const.py\<close>

definition ERROR_CODES :: "(int \<times> string) list" where
  "ERROR_CODES =
    [(400, ''Request body is not valid JSON''),
     (401, ''Unauthorized request''),
     (403, ''OTA function is locked''),
     (404, ''Device does not support requested Device ID''),
     (408, ''Timeout while downloading firmware''),
     (413, ''OTA firmware exceeds device allowed size limit''),
     (422, ''Invalid request parameters''),
     (424, ''Firmware download failed''),
     (471, ''Firmware integrity check failed''),
     (500, ''Device ID or API key is not authorized by vendor'' @ [CHR 0x27] @ ''s OTA service''),
     (503, ''Could not connect to vendor'' @ [CHR 0x27] @ ''s OTA unlock service'')]"

definition STATE_OFF :: string where "STATE_OFF = ''off''"
definition STATE_ON :: string where "STATE_ON = ''on''"
definition STATE_RESTORE :: string where "STATE_RESTORE = ''restore''"
definition STATE_STAY :: string where "STATE_STAY = ''stay''"

section \<open>models.py\<close>

text \<open>
  \<open>Info\<close> is an attrs class without validators: the annotations of its fields are not
  checked at run time, so a field read straight from the device data holds whatever
  value the device sent. Only \<open>on\<close>, \<open>pulse\<close> (results of \<open>==\<close>) and
  \<open>signal_strength_percentage\<close> (computed) have a fixed type.
\<close>

record Info =
  device_id :: string
  on :: bool
  ota_unlock :: json
  power_on_state :: json
  pulse_width :: json
  pulse :: bool
  signal_strength_percentage :: int
  signal_strength :: json
  ssid :: json

text \<open>\<open>d.get(key, default)\<close> on a dict.\<close>

definition dict_get :: "(string \<times> json) list \<Rightarrow> string \<Rightarrow> json \<Rightarrow> json" where
  "dict_get d k dflt = (case map_of d k of None \<Rightarrow> dflt | Some v \<Rightarrow> v)"

text \<open>
  The operand of \<open>signal_strength <= -100\<close>: an \<open>int\<close> compares as itself, a \<open>bool\<close> as
  0 or 1 (\<open>bool\<close> is a subclass of \<open>int\<close>); for \<open>None\<close>, a \<open>str\<close>, a \<open>list\<close> or a \<open>dict\<close>
  the comparison raises \<open>TypeError\<close>.
\<close>

fun int_operand :: "json \<Rightarrow> int option" where
  "int_operand (JInt n) = Some n"
| "int_operand (JBool b) = Some (if b then 1 else 0)"
| "int_operand v = None"

text \<open>
  \<open>Info.from_dict\<close>. Its \<open>data\<close> is whatever \<open>update_info\<close> hands over; \<open>data.get\<close> on a
  value that is not a dict raises \<open>AttributeError\<close>.
\<close>

fun from_dict :: "string \<Rightarrow> json \<Rightarrow> exn + Info" where
  "from_dict dev_id (JObj data) =
     (let sig = dict_get data ''signalStrength'' (JInt (- 100)) in
      case int_operand sig of
        None \<Rightarrow> Inl (PyExc TypeError)
      | Some n \<Rightarrow>
          (let pct = (if n \<le> - 100 then 0
                      else if n \<ge> - 50 then 100
                      else 2 * (n + 100));
               startup = dict_get data ''startup'' (JStr STATE_OFF);
               startup' = (if startup = JStr STATE_STAY then JStr STATE_RESTORE else startup)
           in Inr \<lparr> device_id = dev_id,
                    on = (dict_get data ''switch'' JNull = JStr STATE_ON),
                    ota_unlock = dict_get data ''otaUnlock'' (JBool False),
                    power_on_state = startup',
                    pulse_width = dict_get data ''pulseWidth'' (JInt 0),
                    pulse = (dict_get data ''pulse'' JNull = JStr STATE_ON),
                    signal_strength_percentage = pct,
                    signal_strength = sig,
                    ssid = dict_get data ''ssid'' (JStr []) \<rparr>))"
| "from_dict dev_id v = Inl (PyExc AttributeError)"

section \<open>sonoffdiy.py\<close>

subsection \<open>The network, as the client sees it\<close>

text \<open>
  What leaves the client in one call of \<open>session.request\<close>: a POST to
  \<open>http://host:port/zeroconf/\<close> joined with \<open>uri\<close>, its JSON body and its two headers.
\<close>

record http_request =
  req_host :: string
  req_port :: nat
  req_uri :: string
  req_json :: json
  req_user_agent :: string
  req_accept :: string

text \<open>
  The response object, by what the client reads of it: the status, the \<open>Content-Type\<close>
  header (if any), \<open>response.text()\<close>, and \<open>response.json()\<close> (\<open>None\<close> when the body
  cannot be decoded, so that the call raises).
\<close>

record response =
  resp_status :: nat
  resp_content_type :: "string option"
  resp_text :: string
  resp_json :: "json option"

text \<open>
  The outcome of \<open>await session.request(...)\<close> under the timeout: one of the three
  exceptions the \<open>except\<close> clauses name, or a response.
\<close>

datatype transport = TimeoutError | ClientError | GaiError | Responded response

text \<open>
  Everything outside the repository that the client calls: \<open>json.loads\<close> of the standard
  library, and the network, which answers the \<open>n\<close>-th request sent through this client
  (counted from 0).
\<close>

record env =
  json_loads :: "string \<Rightarrow> json option"
  network :: "nat \<Rightarrow> http_request \<Rightarrow> transport"

text \<open>
  The client object. \<open>self_session\<close> tells whether \<open>self._session\<close> is set. \<open>sent\<close> is
  not an attribute of the Python object: it logs the requests handed to the session,
  oldest first, so that theorems can speak about the network calls made.
\<close>

record SonoffDIY =
  self_session :: bool
  self_close_session :: bool
  self_device_id :: string
  self_host :: string
  self_port :: nat
  self_request_timeout :: nat
  self_user_agent :: string
  self_info :: "Info option"
  sent :: "http_request list"

text \<open>
  \<open>__init__\<close>. The module \<open>__version__\<close> is not among the sources, so the version string
  is a parameter.
\<close>

definition SonoffDIY_init ::
  "string \<Rightarrow> string \<Rightarrow> string \<Rightarrow> nat \<Rightarrow> nat \<Rightarrow> bool \<Rightarrow> string option \<Rightarrow> SonoffDIY" where
  "SonoffDIY_init version host dev_id port timeout has_session user_agent =
     \<lparr> self_session = has_session,
       self_close_session = False,
       self_device_id = dev_id,
       self_host = host,
       self_port = port,
       self_request_timeout = timeout,
       self_user_agent =
         (case user_agent of None \<Rightarrow> ''PythonSonoffDIY/'' @ version | Some ua \<Rightarrow> ua),
       self_info = None,
       sent = [] \<rparr>"

subsection \<open>\<open>_request\<close>\<close>

text \<open>\<open>needle in hay\<close> on two strings: \<open>needle\<close> occurs in \<open>hay\<close> as a substring.\<close>

fun str_in :: "string \<Rightarrow> string \<Rightarrow> bool" where
  "str_in needle [] = (needle = [])"
| "str_in needle (c # cs) = (take (length needle) (c # cs) = needle \<or> str_in needle cs)"

text \<open>\<open>response_data["error"] != 0\<close>: \<open>False\<close> equals 0, nothing but a number does.\<close>

fun ne_zero :: "json \<Rightarrow> bool" where
  "ne_zero (JInt n) = (n \<noteq> 0)"
| "ne_zero (JBool b) = b"
| "ne_zero v = True"

text \<open>
  \<open>ERROR_CODES.get(code, "Unknown error occurred")\<close>: a \<open>bool\<close> hashes and compares as
  0 or 1, a \<open>list\<close> or \<open>dict\<close> is unhashable (\<open>TypeError\<close>), \<open>None\<close> and a \<open>str\<close> are
  keys that are not in the table.
\<close>

fun ERROR_CODES_get :: "json \<Rightarrow> exn + string" where
  "ERROR_CODES_get (JInt n) =
     Inr (case map_of ERROR_CODES n of None \<Rightarrow> ''Unknown error occurred'' | Some m \<Rightarrow> m)"
| "ERROR_CODES_get (JBool b) =
     Inr (case map_of ERROR_CODES (if b then 1 else 0) of
            None \<Rightarrow> ''Unknown error occurred'' | Some m \<Rightarrow> m)"
| "ERROR_CODES_get (JArr xs) = Inl (PyExc TypeError)"
| "ERROR_CODES_get (JObj d) = Inl (PyExc TypeError)"
| "ERROR_CODES_get v = Inr ''Unknown error occurred''"

text \<open>
  Lines 95 to 112 of \<open>_request\<close>, on the decoded body \<open>response_data\<close>. The body is
  whatever JSON value the device sent: \<open>"error" not in response_data\<close> is a key test
  on a dict, a membership test on a list, a substring test on a string, and raises
  \<open>TypeError\<close> on \<open>None\<close>, a \<open>bool\<close> or an \<open>int\<close>; \<open>response_data["error"]\<close> raises
  \<open>TypeError\<close> on a list or a string.
\<close>

fun response_data_result :: "(string \<Rightarrow> json option) \<Rightarrow> json \<Rightarrow> exn + json" where
  "response_data_result loads (JObj d) =
     (case map_of d ''error'' of
        None \<Rightarrow>
          Inl (SonoffDIYError ''Unexpected response from Sonoff DIY device'' (Some (JObj d)))
      | Some err \<Rightarrow>
          if ne_zero err then
            (case ERROR_CODES_get err of
               Inl e \<Rightarrow> Inl e
             | Inr error \<Rightarrow> Inl (SonoffDIYError error (Some (JObj d))))
          else
            (case map_of d ''data'' of
               None \<Rightarrow> Inr JNull
             | Some (JStr s) \<Rightarrow>
                 (case loads s of None \<Rightarrow> Inl (PyExc DecodeError) | Some v \<Rightarrow> Inr v)
             | Some v \<Rightarrow> Inr v))"
| "response_data_result loads (JArr xs) =
     (if JStr ''error'' \<notin> set xs
      then Inl (SonoffDIYError ''Unexpected response from Sonoff DIY device'' (Some (JArr xs)))
      else Inl (PyExc TypeError))"
| "response_data_result loads (JStr s) =
     (if \<not> str_in ''error'' s
      then Inl (SonoffDIYError ''Unexpected response from Sonoff DIY device'' (Some (JStr s)))
      else Inl (PyExc TypeError))"
| "response_data_result loads v = Inl (PyExc TypeError)"

text \<open>\<open>response.headers.get("Content-Type", "")\<close>.\<close>

definition header_content_type :: "response \<Rightarrow> string" where
  "header_content_type r = (case resp_content_type r of None \<Rightarrow> [] | Some c \<Rightarrow> c)"

text \<open>
  Lines 61 to 94: the outcome of the exchange. \<open>response.raise_for_status()\<close> of aiohttp
  raises \<open>ClientResponseError\<close> (a \<open>ClientError\<close>) exactly when the status is 400 or more.
\<close>

definition transport_result :: "(string \<Rightarrow> json option) \<Rightarrow> transport \<Rightarrow> exn + json" where
  "transport_result loads t =
     (case t of
        TimeoutError \<Rightarrow>
          Inl (SonoffDIYConnectionError ''Timeout occurred while connecting to Sonoff DIY device'')
      | ClientError \<Rightarrow>
          Inl (SonoffDIYConnectionError
                 ''Error occurred while communicating with Sonoff DIY device'')
      | GaiError \<Rightarrow>
          Inl (SonoffDIYConnectionError
                 ''Error occurred while communicating with Sonoff DIY device'')
      | Responded r \<Rightarrow>
          if 400 \<le> resp_status r then
            Inl (SonoffDIYConnectionError
                   ''Error occurred while communicating with Sonoff DIY device'')
          else
            (let content_type = header_content_type r in
             if \<not> str_in ''application/json'' content_type then
               Inl (SonoffDIYError ''Unexpected response from Sonoff DIY device''
                      (Some (JObj [(''Content-Type'', JStr content_type),
                                   (''response'', JStr (resp_text r))])))
             else
               (case resp_json r of
                  None \<Rightarrow> Inl (PyExc DecodeError)
                | Some response_data \<Rightarrow> response_data_result loads response_data)))"

text \<open>
  Lines 63 to 71: the request handed to the session, with \<open>data or {}\<close> as payload.
\<close>

definition http_request_of ::
  "SonoffDIY \<Rightarrow> string \<Rightarrow> (string \<times> json) list option \<Rightarrow> http_request" where
  "http_request_of self uri data =
     \<lparr> req_host = self_host self,
       req_port = self_port self,
       req_uri = uri,
       req_json = JObj [(''deviceid'', JStr (self_device_id self)),
                        (''data'', JObj (case data of None \<Rightarrow> [] | Some d \<Rightarrow> d))],
       req_user_agent = self_user_agent self,
       req_accept = ''application/json, */*'' \<rparr>"

text \<open>
  \<open>_request(uri, data)\<close>: creates the session if there is none, sends the request and
  interprets the outcome. The event loop is left out.
\<close>

definition SonoffDIY_request ::
  "env \<Rightarrow> string \<Rightarrow> (string \<times> json) list option \<Rightarrow> SonoffDIY \<Rightarrow> (exn + json) \<times> SonoffDIY" where
  "SonoffDIY_request e uri data self =
     (let self1 = (if self_session self then self
                   else self\<lparr>self_session := True, self_close_session := True\<rparr>);
          req = http_request_of self1 uri data
      in (transport_result (json_loads e) (network e (length (sent self1)) req),
          self1\<lparr>sent := sent self1 @ [req]\<rparr>))"

subsection \<open>\<open>update_info\<close>\<close>

text \<open>
  \<open>data.update(other)\<close> when \<open>other\<close> is not a dict: Python accepts any iterable of
  two-element sequences. One element of such an iterable: a two-element list is a key
  and a value (\<open>TypeError\<close> when the key is a list or a dict, which are unhashable);
  a two-character string gives its characters as key and value; a dict with two keys
  gives its keys as key and value; any other length is a \<open>ValueError\<close>; \<open>None\<close>, a \<open>bool\<close>
  and an \<open>int\<close> are no sequences (\<open>TypeError\<close>). A key that is not a string is stored by
  Python but never looked up by \<open>from_dict\<close>, so the model, whose dicts have string keys,
  leaves the dict as it is.
\<close>

fun update_item :: "json \<Rightarrow> (string \<times> json) list \<Rightarrow> exn + (string \<times> json) list" where
  "update_item (JArr [JStr k, v]) d = Inr (AList.update k v d)"
| "update_item (JArr [JArr k, v]) d = Inl (PyExc TypeError)"
| "update_item (JArr [JObj k, v]) d = Inl (PyExc TypeError)"
| "update_item (JArr [k, v]) d = Inr d"
| "update_item (JArr xs) d = Inl (PyExc ValueError)"
| "update_item (JStr [a, b]) d = Inr (AList.update [a] (JStr [b]) d)"
| "update_item (JStr s) d = Inl (PyExc ValueError)"
| "update_item (JObj [(k1, v1), (k2, v2)]) d = Inr (AList.update k1 (JStr k2) d)"
| "update_item (JObj kvs) d = Inl (PyExc ValueError)"
| "update_item v d = Inl (PyExc TypeError)"

fun update_items :: "json list \<Rightarrow> (string \<times> json) list \<Rightarrow> exn + (string \<times> json) list" where
  "update_items [] d = Inr d"
| "update_items (x # xs) d =
     (case update_item x d of Inl e \<Rightarrow> Inl e | Inr d' \<Rightarrow> update_items xs d')"

text \<open>
  \<open>data.update(other)\<close>, returning the updated \<open>data\<close>. A value that is not a dict has no
  \<open>update\<close> (\<open>AttributeError\<close>). A dict \<open>other\<close> overrides and extends \<open>data\<close> key by key;
  a list is an iterable of pairs; a string is an iterable of one-character strings
  (\<open>ValueError\<close> unless it is empty); \<open>None\<close>, a \<open>bool\<close> and an \<open>int\<close> are not iterable.
\<close>

fun dict_update :: "json \<Rightarrow> json \<Rightarrow> exn + json" where
  "dict_update (JObj d) (JObj other) = Inr (JObj (fold (\<lambda>(k, v). AList.update k v) other d))"
| "dict_update (JObj d) (JArr xs) =
     (case update_items xs d of Inl e \<Rightarrow> Inl e | Inr d' \<Rightarrow> Inr (JObj d'))"
| "dict_update (JObj d) (JStr s) = (if s = [] then Inr (JObj d) else Inl (PyExc ValueError))"
| "dict_update (JObj d) v = Inl (PyExc TypeError)"
| "dict_update data v = Inl (PyExc AttributeError)"

text \<open>
  \<open>update_info\<close>. Both requests stand in one \<open>try\<close> whose \<open>except SonoffDIYError\<close> clears
  \<open>self.info\<close> and raises again; any other exception leaves the \<open>try\<close> untouched. The test
  for missing data comes after both requests.
\<close>

definition SonoffDIY_update_info :: "env \<Rightarrow> SonoffDIY \<Rightarrow> (exn + Info) \<times> SonoffDIY" where
  "SonoffDIY_update_info e self =
     (case SonoffDIY_request e ''info'' None self of
        (Inl ex, self1) \<Rightarrow>
          (Inl ex, if is_SonoffDIYError ex then self1\<lparr>self_info := None\<rparr> else self1)
      | (Inr data, self1) \<Rightarrow>
          (case SonoffDIY_request e ''signal_strength'' None self1 of
             (Inl ex, self2) \<Rightarrow>
               (Inl ex, if is_SonoffDIYError ex then self2\<lparr>self_info := None\<rparr> else self2)
           | (Inr strength, self2) \<Rightarrow>
               if data = JNull then
                 (Inl (SonoffDIYError ''Did not receive data from Sonoff DIY device'' None),
                  self2\<lparr>self_info := None\<rparr>)
               else
                 (case (if strength \<noteq> JNull then dict_update data strength
                        else Inr data) of
                    Inl ex \<Rightarrow> (Inl ex, self2)
                  | Inr data' \<Rightarrow>
                      (case from_dict (self_device_id self2) data' of
                         Inl ex \<Rightarrow> (Inl ex, self2)
                       | Inr i \<Rightarrow> (Inr i, self2\<lparr>self_info := Some i\<rparr>)))))"

subsection \<open>The actions\<close>

text \<open>An action returns \<open>None\<close>: what \<open>_request\<close> returned is dropped.\<close>

definition discard :: "(exn + json) \<times> SonoffDIY \<Rightarrow> (exn + unit) \<times> SonoffDIY" where
  "discard r = (case r of (Inl ex, self) \<Rightarrow> (Inl ex, self) | (Inr v, self) \<Rightarrow> (Inr (), self))"

definition SonoffDIY_turn_on :: "env \<Rightarrow> SonoffDIY \<Rightarrow> (exn + unit) \<times> SonoffDIY" where
  "SonoffDIY_turn_on e self =
     discard (SonoffDIY_request e ''switch'' (Some [(''switch'', JStr STATE_ON)]) self)"

definition SonoffDIY_turn_off :: "env \<Rightarrow> SonoffDIY \<Rightarrow> (exn + unit) \<times> SonoffDIY" where
  "SonoffDIY_turn_off e self =
     discard (SonoffDIY_request e ''switch'' (Some [(''switch'', JStr STATE_OFF)]) self)"

definition SonoffDIY_pulse_on :: "env \<Rightarrow> int option \<Rightarrow> SonoffDIY \<Rightarrow> (exn + unit) \<times> SonoffDIY" where
  "SonoffDIY_pulse_on e width self =
     discard (SonoffDIY_request e ''pulse''
       (Some ((''pulse'', JStr STATE_ON) #
              (case width of None \<Rightarrow> [] | Some w \<Rightarrow> [(''pulse_width'', JInt w)]))) self)"

definition SonoffDIY_pulse_off :: "env \<Rightarrow> SonoffDIY \<Rightarrow> (exn + unit) \<times> SonoffDIY" where
  "SonoffDIY_pulse_off e self =
     discard (SonoffDIY_request e ''pulse'' (Some [(''pulse'', JStr STATE_OFF)]) self)"

text \<open>
  \<open>pulse_width\<close>: an exception of \<open>update_info\<close> ends the call. Otherwise \<open>self.info\<close> is
  read back; an \<open>Info\<close> object is truthy, \<open>None\<close> is not.
\<close>

definition SonoffDIY_pulse_width :: "env \<Rightarrow> int \<Rightarrow> SonoffDIY \<Rightarrow> (exn + unit) \<times> SonoffDIY" where
  "SonoffDIY_pulse_width e width self =
     (case SonoffDIY_update_info e self of
        (Inl ex, self1) \<Rightarrow> (Inl ex, self1)
      | (Inr i, self1) \<Rightarrow>
          (let p = (case self_info self1 of
                      None \<Rightarrow> STATE_OFF
                    | Some i' \<Rightarrow> if pulse i' then STATE_ON else STATE_OFF)
           in discard (SonoffDIY_request e ''pulse''
                (Some [(''pulse'', JStr p), (''pulse_width'', JInt width)]) self1)))"

definition SonoffDIY_wifi :: "env \<Rightarrow> string \<Rightarrow> string \<Rightarrow> SonoffDIY \<Rightarrow> (exn + unit) \<times> SonoffDIY" where
  "SonoffDIY_wifi e ssid_name password self =
     discard (SonoffDIY_request e ''wifi''
       (Some [(''ssid'', JStr ssid_name), (''password'', JStr password)]) self)"

definition SonoffDIY_ota_unlock :: "env \<Rightarrow> SonoffDIY \<Rightarrow> (exn + unit) \<times> SonoffDIY" where
  "SonoffDIY_ota_unlock e self = discard (SonoffDIY_request e ''ota_unlock'' None self)"

definition SonoffDIY_ota_flash :: "env \<Rightarrow> string \<Rightarrow> string \<Rightarrow> SonoffDIY \<Rightarrow> (exn + unit) \<times> SonoffDIY" where
  "SonoffDIY_ota_flash e url sha self =
     discard (SonoffDIY_request e ''ota_flash''
       (Some [(''downloadUrl'', JStr url), (''sha256sum'', JStr sha)]) self)"

text \<open>
  \<open>power_on_state\<close>: the membership test admits four strings, \<open>STATE_STAY\<close> among them;
  a rejected value raises before anything is sent.
\<close>

definition SonoffDIY_power_on_state :: "env \<Rightarrow> string \<Rightarrow> SonoffDIY \<Rightarrow> (exn + unit) \<times> SonoffDIY" where
  "SonoffDIY_power_on_state e state self =
     (if state \<notin> set [STATE_ON, STATE_OFF, STATE_RESTORE, STATE_STAY] then
        (Inl (SonoffDIYError ''Invalid startup value, accepted: on, off, restore'' None), self)
      else
        (let state' = (if state = STATE_RESTORE then STATE_STAY else state)
         in discard (SonoffDIY_request e ''startup'' (Some [(''startup'', JStr state')]) self)))"

section \<open>A concrete environment\<close>

text \<open>
  The theorems below hold for every \<open>json.loads\<close> and every network. Their instances at
  concrete inputs need a concrete environment: a reader for a fragment of JSON and a
  device that answers as the one of \<open>tests/test_info.py\<close>.

  \<open>loads\<close> reads objects, arrays, strings without escapes, integers, \<open>true\<close>, \<open>false\<close>
  and \<open>null\<close>, with JSON's white space; a repeated key keeps its last value, as in Python.
  It answers \<open>None\<close> on a text that is not JSON and also on JSON outside this fragment
  (a backslash or a character outside printable ASCII in a string, a fraction or an
  exponent in a number), so it stands for \<open>json.loads\<close> only where it answers \<open>Some\<close> or the
  text is not JSON at all. The fuel bounds the recursion; the length of the text suffices,
  every call consuming a character.
\<close>

definition is_ws :: "char \<Rightarrow> bool" where
  "is_ws c = (c = CHR 0x20 \<or> c = CHR 0x09 \<or> c = CHR 0x0A \<or> c = CHR 0x0D)"

fun skip_ws :: "string \<Rightarrow> string" where
  "skip_ws [] = []"
| "skip_ws (c # cs) = (if is_ws c then skip_ws cs else c # cs)"

definition is_digit :: "char \<Rightarrow> bool" where
  "is_digit c = (c \<in> set ''0123456789'')"

fun scan_digits :: "nat \<Rightarrow> string \<Rightarrow> nat \<times> string" where
  "scan_digits acc [] = (acc, [])"
| "scan_digits acc (c # cs) =
     (if is_digit c then scan_digits (10 * acc + (of_char c - 48)) cs else (acc, c # cs))"

definition scan_nat :: "string \<Rightarrow> (nat \<times> string) option" where
  "scan_nat s =
     (case s of
        [] \<Rightarrow> None
      | c # cs \<Rightarrow>
          if \<not> is_digit c then None
          else (case (if c = CHR ''0'' then (0, cs) else scan_digits 0 (c # cs)) of
                  (n, rest) \<Rightarrow>
                    (case rest of
                       [] \<Rightarrow> Some (n, rest)
                     | d # ds \<Rightarrow>
                         if d = CHR ''.'' \<or> d = CHR ''e'' \<or> d = CHR ''E'' then None
                         else Some (n, rest))))"

fun scan_string :: "string \<Rightarrow> string \<Rightarrow> (string \<times> string) option" where
  "scan_string acc [] = None"
| "scan_string acc (c # cs) =
     (if c = CHR 0x22 then Some (rev acc, cs)
      else if c = CHR 0x5C \<or> of_char c < (32::nat) \<or> (126::nat) < of_char c then None
      else scan_string (c # acc) cs)"

fun scan_value :: "nat \<Rightarrow> string \<Rightarrow> (json \<times> string) option"
  and scan_elements :: "nat \<Rightarrow> json list \<Rightarrow> string \<Rightarrow> (json \<times> string) option"
  and scan_members :: "nat \<Rightarrow> (string \<times> json) list \<Rightarrow> string \<Rightarrow> (json \<times> string) option"
where
  "scan_value 0 s = None"
| "scan_value (Suc fuel) s =
     (if take 4 s = ''null'' then Some (JNull, drop 4 s)
      else if take 4 s = ''true'' then Some (JBool True, drop 4 s)
      else if take 5 s = ''false'' then Some (JBool False, drop 5 s)
      else case s of
        [] \<Rightarrow> None
      | c # cs \<Rightarrow>
          if c = CHR 0x22 then
            (case scan_string [] cs of
               None \<Rightarrow> None
             | Some (str, rest) \<Rightarrow> Some (JStr str, rest))
          else if c = CHR ''-'' then
            (case scan_nat cs of
               None \<Rightarrow> None
             | Some (n, rest) \<Rightarrow> Some (JInt (- int n), rest))
          else if is_digit c then
            (case scan_nat s of
               None \<Rightarrow> None
             | Some (n, rest) \<Rightarrow> Some (JInt (int n), rest))
          else if c = CHR ''['' then
            (case skip_ws cs of
               [] \<Rightarrow> None
             | d # ds \<Rightarrow> if d = CHR '']'' then Some (JArr [], ds)
                          else scan_elements fuel [] (d # ds))
          else if c = CHR ''{'' then
            (case skip_ws cs of
               [] \<Rightarrow> None
             | d # ds \<Rightarrow> if d = CHR ''}'' then Some (JObj [], ds)
                          else scan_members fuel [] (d # ds))
          else None)"
| "scan_elements 0 acc s = None"
| "scan_elements (Suc fuel) acc s =
     (case scan_value fuel s of
        None \<Rightarrow> None
      | Some (v, rest) \<Rightarrow>
          (case skip_ws rest of
             [] \<Rightarrow> None
           | d # ds \<Rightarrow>
               if d = CHR '']'' then Some (JArr (acc @ [v]), ds)
               else if d = CHR '','' then scan_elements fuel (acc @ [v]) (skip_ws ds)
               else None))"
| "scan_members 0 acc s = None"
| "scan_members (Suc fuel) acc s =
     (case s of
        [] \<Rightarrow> None
      | q # qs \<Rightarrow>
          if q \<noteq> CHR 0x22 then None
          else (case scan_string [] qs of
                  None \<Rightarrow> None
                | Some (k, rest) \<Rightarrow>
                    (case skip_ws rest of
                       [] \<Rightarrow> None
                     | c # cs \<Rightarrow>
                         if c \<noteq> CHR '':'' then None
                         else (case scan_value fuel (skip_ws cs) of
                                 None \<Rightarrow> None
                               | Some (v, rest') \<Rightarrow>
                                   (case skip_ws rest' of
                                      [] \<Rightarrow> None
                                    | d # ds \<Rightarrow>
                                        if d = CHR ''}'' then
                                          Some (JObj (AList.update k v acc), ds)
                                        else if d = CHR '','' then
                                          scan_members fuel (AList.update k v acc) (skip_ws ds)
                                        else None)))))"

definition loads :: "string \<Rightarrow> json option" where
  "loads s =
     (case scan_value (length s) (skip_ws s) of
        None \<Rightarrow> None
      | Some (v, rest) \<Rightarrow> if skip_ws rest = [] then Some v else None)"

text \<open>
  A response with status 200 and content type \<open>application/json\<close> whose body decodes to
  the given value. The body text, which the client reads only when the content type is
  wrong, is left empty.
\<close>

definition json_response :: "json \<Rightarrow> response" where
  "json_response v =
     \<lparr> resp_status = 200,
       resp_content_type = Some ''application/json'',
       resp_text = [],
       resp_json = Some v \<rparr>"

text \<open>
  The device of \<open>test_info_update\<close>: \<open>info\<close> answers with its data packed in a string,
  \<open>signal_strength\<close> with an object, every other path with a bare success envelope.
\<close>

definition test_info_data :: string where
  \<open>test_info_data =
     ''{"switch":"on","startup":"stay","pulse":"off","pulseWidth":1500,"ssid":"frenck","otaUnlock":true}''\<close>

definition test_network :: "nat \<Rightarrow> http_request \<Rightarrow> transport" where
  "test_network n r =
     (if req_uri r = ''info'' then
        Responded (json_response
          (JObj [(''seq'', JInt 6), (''error'', JInt 0), (''data'', JStr test_info_data)]))
      else if req_uri r = ''signal_strength'' then
        Responded (json_response
          (JObj [(''seq'', JInt 26), (''error'', JInt 0),
                 (''data'', JObj [(''signalStrength'', JInt (- 48))])]))
      else
        Responded (json_response (JObj [(''seq'', JInt 1), (''error'', JInt 0)])))"

definition test_env :: env where
  "test_env = \<lparr> json_loads = loads, network = test_network \<rparr>"

definition test_diy :: SonoffDIY where
  "test_diy = SonoffDIY_init ''0.1.0'' ''example.com'' ''100090ab1a'' 8081 3 True None"

text \<open>The device of \<open>test_encoded_json_request\<close>: every answer packs its data in a string.\<close>

definition test_encoded_data :: string where
  \<open>test_encoded_data = ''{"test": "ok"}''\<close>

definition encoded_network :: "nat \<Rightarrow> http_request \<Rightarrow> transport" where
  "encoded_network n r =
     Responded (json_response
       (JObj [(''seq'', JInt 26), (''error'', JInt 0), (''data'', JStr test_encoded_data)]))"

definition encoded_env :: env where
  "encoded_env = \<lparr> json_loads = loads, network = encoded_network \<rparr>"



text \<open>
  A device whose \<open>signal_strength\<close> answer announces JSON and carries a body that is none
  (the body of \<open>test_info_none\<close>, here with status 200), so that \<open>response.json()\<close> raises;
  \<open>info\<close> answers as the test device.
\<close>

definition broken_network :: "nat \<Rightarrow> http_request \<Rightarrow> transport" where
  "broken_network n r =
     (if req_uri r = ''signal_strength'' then
        Responded \<lparr> resp_status = 200,
                    resp_content_type = Some ''application/json'',
                    resp_text = ''Invalid response'',
                    resp_json = None \<rparr>
      else test_network n r)"


text \<open>A device whose \<open>info\<close> answer is a success envelope without data
  (\<open>test_no_data\<close>).\<close>

definition no_data_network :: "nat \<Rightarrow> http_request \<Rightarrow> transport" where
  "no_data_network n r =
     (if req_uri r = ''info'' then
        Responded (json_response (JObj [(''seq'', JInt 6), (''error'', JInt 0)]))
      else test_network n r)"

definition no_data_env :: env where
  "no_data_env = \<lparr> json_loads = loads, network = no_data_network \<rparr>"

text \<open>
  A device whose \<open>info\<close> answer is a success envelope without data and whose
  \<open>signal_strength\<close> answer announces JSON and carries a body that is none.
\<close>

definition no_data_broken_network :: "nat \<Rightarrow> http_request \<Rightarrow> transport" where
  "no_data_broken_network n r =
     (if req_uri r = ''info'' then no_data_network n r else broken_network n r)"

definition no_data_broken_env :: env where
  "no_data_broken_env = \<lparr> json_loads = loads, network = no_data_broken_network \<rparr>"

text \<open>A device that reports error 422 on every request (\<open>test_error_response\<close>).\<close>

definition error_422_network :: "nat \<Rightarrow> http_request \<Rightarrow> transport" where
  "error_422_network n r =
     Responded (json_response (JObj [(''seq'', JInt 26), (''error'', JInt 422)]))"

definition error_422_env :: env where
  "error_422_env = \<lparr> json_loads = loads, network = error_422_network \<rparr>"





section \<open>The normalizer\<close>

text \<open>
  What \<open>from_dict\<close> returns on a dict whose \<open>signalStrength\<close> (or, when the key is missing,
  the default) is an integer: every field written out.
\<close>

lemma from_dict_int:
  assumes "dict_get data ''signalStrength'' (JInt (- 100)) = JInt n"
  shows "from_dict dev (JObj data) =
    Inr \<lparr> device_id = dev,
          on = (dict_get data ''switch'' JNull = JStr ''on''),
          ota_unlock = dict_get data ''otaUnlock'' (JBool False),
          power_on_state =
            (if dict_get data ''startup'' (JStr ''off'') = JStr ''stay'' then JStr ''restore''
             else dict_get data ''startup'' (JStr ''off'')),
          pulse_width = dict_get data ''pulseWidth'' (JInt 0),
          pulse = (dict_get data ''pulse'' JNull = JStr ''on''),
          signal_strength_percentage =
            (if n \<le> - 100 then 0 else if - 50 \<le> n then 100 else 2 * (n + 100)),
          signal_strength = JInt n,
          ssid = dict_get data ''ssid'' (JStr []) \<rparr>"
  using assms
  by (simp add: Let_def STATE_OFF_def STATE_ON_def STATE_STAY_def STATE_RESTORE_def)

text \<open>
  Claim C3. For every integer \<open>dbm\<close> in the field \<open>signalStrength\<close>, the snapshot keeps
  \<open>dbm\<close> and its percentage is 0 when \<open>dbm \<le> -100\<close>, 100 when \<open>dbm \<ge> -50\<close> and
  \<open>2 * (dbm + 100)\<close> strictly in between; when the field is missing the signal strength
  defaults to -100 and the percentage is 0.
\<close>

theorem from_dict_percentage:
  "(map_of data ''signalStrength'' = Some (JInt dbm) \<longrightarrow>
      (\<exists>i. from_dict dev (JObj data) = Inr i \<and> signal_strength i = JInt dbm \<and>
           (dbm \<le> - 100 \<longrightarrow> signal_strength_percentage i = 0) \<and>
           (- 50 \<le> dbm \<longrightarrow> signal_strength_percentage i = 100) \<and>
           (- 100 < dbm \<and> dbm < - 50 \<longrightarrow> signal_strength_percentage i = 2 * (dbm + 100)))) \<and>
   (map_of data ''signalStrength'' = None \<longrightarrow>
      (\<exists>i. from_dict dev (JObj data) = Inr i \<and> signal_strength i = JInt (- 100) \<and>
           signal_strength_percentage i = 0))"
proof (intro conjI impI)
  assume "map_of data ''signalStrength'' = Some (JInt dbm)"
  then have "dict_get data ''signalStrength'' (JInt (- 100)) = JInt dbm"
    by (simp add: dict_get_def)
  from from_dict_int [OF this, of dev]
  show "\<exists>i. from_dict dev (JObj data) = Inr i \<and> signal_strength i = JInt dbm \<and>
           (dbm \<le> - 100 \<longrightarrow> signal_strength_percentage i = 0) \<and>
           (- 50 \<le> dbm \<longrightarrow> signal_strength_percentage i = 100) \<and>
           (- 100 < dbm \<and> dbm < - 50 \<longrightarrow> signal_strength_percentage i = 2 * (dbm + 100))"
    by simp
next
  assume "map_of data ''signalStrength'' = None"
  then have "dict_get data ''signalStrength'' (JInt (- 100)) = JInt (- 100)"
    by (simp add: dict_get_def)
  from from_dict_int [OF this, of dev]
  show "\<exists>i. from_dict dev (JObj data) = Inr i \<and> signal_strength i = JInt (- 100) \<and>
           signal_strength_percentage i = 0"
    by simp
qed

text \<open>The values the specification names: -48 gives 100, -60 gives 80, -100 gives 0, and
  a missing field gives -100 and 0.\<close>

theorem from_dict_percentage_witness:
  "(\<exists>i. from_dict ''d'' (JObj [(''signalStrength'', JInt (- 48))]) = Inr i \<and>
        signal_strength i = JInt (- 48) \<and> signal_strength_percentage i = 100) \<and>
   (\<exists>i. from_dict ''d'' (JObj [(''signalStrength'', JInt (- 60))]) = Inr i \<and>
        signal_strength i = JInt (- 60) \<and> signal_strength_percentage i = 80) \<and>
   (\<exists>i. from_dict ''d'' (JObj [(''signalStrength'', JInt (- 100))]) = Inr i \<and>
        signal_strength i = JInt (- 100) \<and> signal_strength_percentage i = 0) \<and>
   (\<exists>i. from_dict ''d'' (JObj []) = Inr i \<and>
        signal_strength i = JInt (- 100) \<and> signal_strength_percentage i = 0)"
  using from_dict_percentage [of "[(''signalStrength'', JInt (- 48))]" "- 48" "''d''"]
        from_dict_percentage [of "[(''signalStrength'', JInt (- 60))]" "- 60" "''d''"]
        from_dict_percentage [of "[(''signalStrength'', JInt (- 100))]" "- 100" "''d''"]
        from_dict_percentage [of "[]" 0 "''d''"]
  by simp

section \<open>The protocol client\<close>

lemma http_request_of_session [simp]:
  "http_request_of (self\<lparr>self_session := a, self_close_session := b\<rparr>) uri data =
   http_request_of self uri data"
  by (simp add: http_request_of_def)

lemma request_fst:
  "fst (SonoffDIY_request e uri data self) =
   transport_result (json_loads e) (network e (length (sent self)) (http_request_of self uri data))"
  by (simp add: SonoffDIY_request_def Let_def)

lemma request_sent:
  "sent (snd (SonoffDIY_request e uri data self)) = sent self @ [http_request_of self uri data]"
  by (simp add: SonoffDIY_request_def Let_def)

lemma request_info [simp]:
  "self_info (snd (SonoffDIY_request e uri data self)) = self_info self"
  by (simp add: SonoffDIY_request_def Let_def)

lemma request_device_id [simp]:
  "self_device_id (snd (SonoffDIY_request e uri data self)) = self_device_id self"
  by (simp add: SonoffDIY_request_def Let_def)

lemma http_request_of_request [simp]:
  "http_request_of (snd (SonoffDIY_request e uri data self)) uri' data' =
   http_request_of self uri' data'"
  by (simp add: SonoffDIY_request_def Let_def http_request_of_def)

lemma transport_result_ok:
  assumes "resp_status r < 400" "str_in ''application/json'' (header_content_type r)"
    "resp_json r = Some v"
  shows "transport_result l (Responded r) = response_data_result l v"
  using assms by (simp add: transport_result_def Let_def)

lemma loads_test_info_data:
  "loads test_info_data =
   Some (JObj [(''switch'', JStr ''on''), (''startup'', JStr ''stay''), (''pulse'', JStr ''off''),
     (''pulseWidth'', JInt 1500), (''ssid'', JStr ''frenck''), (''otaUnlock'', JBool True)])"
  by code_simp

lemma loads_test_encoded_data:
  "loads test_encoded_data = Some (JObj [(''test'', JStr ''ok'')])"
  by code_simp

lemma test_diy_simps [simp]:
  "self_session test_diy" "self_device_id test_diy = ''100090ab1a''" "sent test_diy = []"
  "self_info test_diy = None" "self_host test_diy = ''example.com''" "self_port test_diy = 8081"
  "self_user_agent test_diy = ''PythonSonoffDIY/0.1.0''"
  by (simp_all add: test_diy_def SonoffDIY_init_def)

lemma json_response_simps [simp]:
  "resp_status (json_response v) = 200"
  "header_content_type (json_response v) = ''application/json''"
  "resp_json (json_response v) = Some v"
  by (simp_all add: json_response_def header_content_type_def)

text \<open>
  Claim C5. When the exchange succeeds and the decoded envelope is an object with
  \<open>error\<close> equal to 0: if \<open>data\<close> is a string, \<open>_request\<close> hands that string to
  \<open>json.loads\<close> and returns what it yields (the exception of \<open>json.loads\<close> when the
  string is not JSON); if \<open>data\<close> is an object, it is returned as it is; if \<open>data\<close>
  is absent, \<open>_request\<close> returns \<open>None\<close> and raises nothing.
\<close>

theorem request_data:
  assumes "network e (length (sent self)) (http_request_of self uri data) = Responded r"
    and "resp_status r < 400"
    and "str_in ''application/json'' (header_content_type r)"
    and "resp_json r = Some (JObj d)"
    and "map_of d ''error'' = Some (JInt 0)"
  shows "(map_of d ''data'' = Some (JStr s) \<longrightarrow>
            fst (SonoffDIY_request e uri data self) =
              (case json_loads e s of None \<Rightarrow> Inl (PyExc DecodeError) | Some v \<Rightarrow> Inr v)) \<and>
         (map_of d ''data'' = Some (JObj obj) \<longrightarrow>
            fst (SonoffDIY_request e uri data self) = Inr (JObj obj)) \<and>
         (map_of d ''data'' = None \<longrightarrow>
            fst (SonoffDIY_request e uri data self) = Inr JNull)"
  using assms by (simp add: request_fst transport_result_ok)

text \<open>
  The packed answer of \<open>test_encoded_json_request\<close> yields the object with \<open>test\<close> mapped
  to \<open>ok\<close>; the test device's \<open>signal_strength\<close> answer yields its object; its bare
  envelope yields \<open>None\<close>.
\<close>

theorem request_data_witness:
  "fst (SonoffDIY_request encoded_env ''/'' None test_diy) = Inr (JObj [(''test'', JStr ''ok'')]) \<and>
   fst (SonoffDIY_request test_env ''signal_strength'' None test_diy) =
     Inr (JObj [(''signalStrength'', JInt (- 48))]) \<and>
   fst (SonoffDIY_request test_env ''switch'' (Some [(''switch'', JStr ''on'')]) test_diy) =
     Inr JNull"
proof -
  have a: "fst (SonoffDIY_request encoded_env ''/'' None test_diy) =
     Inr (JObj [(''test'', JStr ''ok'')])"
    using request_data [of encoded_env test_diy "''/''" None
        "json_response (JObj [(''seq'', JInt 26), (''error'', JInt 0),
           (''data'', JStr test_encoded_data)])"
        "[(''seq'', JInt 26), (''error'', JInt 0), (''data'', JStr test_encoded_data)]"
        test_encoded_data "[]"]
      loads_test_encoded_data
    by (simp add: encoded_env_def encoded_network_def)
  have b: "fst (SonoffDIY_request test_env ''signal_strength'' None test_diy) =
     Inr (JObj [(''signalStrength'', JInt (- 48))])"
    using request_data [of test_env test_diy "''signal_strength''" None
        "json_response (JObj [(''seq'', JInt 26), (''error'', JInt 0),
                 (''data'', JObj [(''signalStrength'', JInt (- 48))])])"
        "[(''seq'', JInt 26), (''error'', JInt 0),
                 (''data'', JObj [(''signalStrength'', JInt (- 48))])]" "[]"
        "[(''signalStrength'', JInt (- 48))]"]
    by (simp add: test_env_def test_network_def http_request_of_def)
  have c: "fst (SonoffDIY_request test_env ''switch'' (Some [(''switch'', JStr ''on'')]) test_diy) =
     Inr JNull"
    using request_data [of test_env test_diy "''switch''" "Some [(''switch'', JStr ''on'')]"
        "json_response (JObj [(''seq'', JInt 1), (''error'', JInt 0)])"
        "[(''seq'', JInt 1), (''error'', JInt 0)]" "[]" "[]"]
    by (simp add: test_env_def test_network_def http_request_of_def)
  from a b c show ?thesis by simp
qed

text \<open>
  \<open>ERROR_CODES.get\<close> on an integer code, with the table written out: total, and the
  generic message for every code outside the table.
\<close>

lemma ERROR_CODES_get_int:
  "ERROR_CODES_get (JInt c) =
     Inr (if c = 400 then ''Request body is not valid JSON''
          else if c = 401 then ''Unauthorized request''
          else if c = 403 then ''OTA function is locked''
          else if c = 404 then ''Device does not support requested Device ID''
          else if c = 408 then ''Timeout while downloading firmware''
          else if c = 413 then ''OTA firmware exceeds device allowed size limit''
          else if c = 422 then ''Invalid request parameters''
          else if c = 424 then ''Firmware download failed''
          else if c = 471 then ''Firmware integrity check failed''
          else if c = 500 then
            ''Device ID or API key is not authorized by vendor'' @ [CHR 0x27] @ ''s OTA service''
          else if c = 503 then
            ''Could not connect to vendor'' @ [CHR 0x27] @ ''s OTA unlock service''
          else ''Unknown error occurred'')"
  by (simp add: ERROR_CODES_def)

text \<open>
  Claim C7. When the exchange succeeds and the decoded envelope is an object whose
  \<open>error\<close> is an integer other than 0, the lookup in \<open>ERROR_CODES\<close> yields a message
  (its own message for each of 400, 401, 403, 404, 408, 413, 422, 424, 471, 500 and
  503, the generic one for every other code) and \<open>_request\<close> raises \<open>SonoffDIYError\<close>
  with that message and the decoded body.
\<close>

theorem request_error_code:
  assumes "network e (length (sent self)) (http_request_of self uri data) = Responded r"
    and "resp_status r < 400"
    and "str_in ''application/json'' (header_content_type r)"
    and "resp_json r = Some (JObj d)"
    and "map_of d ''error'' = Some (JInt c)"
    and "c \<noteq> 0"
  shows "let error =
           (if c = 400 then ''Request body is not valid JSON''
            else if c = 401 then ''Unauthorized request''
            else if c = 403 then ''OTA function is locked''
            else if c = 404 then ''Device does not support requested Device ID''
            else if c = 408 then ''Timeout while downloading firmware''
            else if c = 413 then ''OTA firmware exceeds device allowed size limit''
            else if c = 422 then ''Invalid request parameters''
            else if c = 424 then ''Firmware download failed''
            else if c = 471 then ''Firmware integrity check failed''
            else if c = 500 then
              ''Device ID or API key is not authorized by vendor'' @ [CHR 0x27] @ ''s OTA service''
            else if c = 503 then
              ''Could not connect to vendor'' @ [CHR 0x27] @ ''s OTA unlock service''
            else ''Unknown error occurred'')
         in ERROR_CODES_get (JInt c) = Inr error \<and>
            fst (SonoffDIY_request e uri data self) =
              Inl (SonoffDIYError error (Some (JObj d)))"
proof -
  have "fst (SonoffDIY_request e uri data self) = response_data_result (json_loads e) (JObj d)"
    using assms(1-4) by (simp add: request_fst transport_result_ok)
  also have "\<dots> = (case ERROR_CODES_get (JInt c) of
                      Inl ex \<Rightarrow> Inl ex
                    | Inr error \<Rightarrow> Inl (SonoffDIYError error (Some (JObj d))))"
    using assms(5,6) by (simp del: ERROR_CODES_get.simps)
  finally show ?thesis
    by (simp only: Let_def ERROR_CODES_get_int sum.case simp_thms)
qed

text \<open>The answer of \<open>test_error_response\<close>: code 422.\<close>

theorem request_error_code_witness:
  "ERROR_CODES_get (JInt 422) = Inr ''Invalid request parameters'' \<and>
   fst (SonoffDIY_request error_422_env ''info'' None test_diy) =
     Inl (SonoffDIYError ''Invalid request parameters''
            (Some (JObj [(''seq'', JInt 26), (''error'', JInt 422)])))"
  using request_error_code [of error_422_env test_diy "''info''" None
      "json_response (JObj [(''seq'', JInt 26), (''error'', JInt 422)])"
      "[(''seq'', JInt 26), (''error'', JInt 422)]" 422]
  by (simp add: error_422_env_def error_422_network_def Let_def del: ERROR_CODES_get.simps)

section \<open>The facade\<close>

lemma http_request_of_info [simp]:
  "http_request_of (self\<lparr>self_info := x\<rparr>) uri data = http_request_of self uri data"
  by (simp add: http_request_of_def)

lemma http_request_of_simps [simp]:
  "req_uri (http_request_of self uri data) = uri"
  "req_json (http_request_of self uri data) =
     JObj [(''deviceid'', JStr (self_device_id self)),
           (''data'', JObj (case data of None \<Rightarrow> [] | Some d \<Rightarrow> d))]"
  by (simp_all add: http_request_of_def)

lemma update_info_info_raises:
  assumes "fst (SonoffDIY_request e ''info'' None self) = Inl ex"
  shows "SonoffDIY_update_info e self =
    (Inl ex,
     if is_SonoffDIYError ex then (snd (SonoffDIY_request e ''info'' None self))\<lparr>self_info := None\<rparr>
     else snd (SonoffDIY_request e ''info'' None self))"
  using assms
  by (cases "SonoffDIY_request e ''info'' None self") (simp add: SonoffDIY_update_info_def)

lemma update_info_signal_raises:
  assumes "fst (SonoffDIY_request e ''info'' None self) = Inr data"
    and "fst (SonoffDIY_request e ''signal_strength'' None
                (snd (SonoffDIY_request e ''info'' None self))) = Inl ex"
  shows "SonoffDIY_update_info e self =
    (Inl ex,
     if is_SonoffDIYError ex
     then (snd (SonoffDIY_request e ''signal_strength'' None
                  (snd (SonoffDIY_request e ''info'' None self))))\<lparr>self_info := None\<rparr>
     else snd (SonoffDIY_request e ''signal_strength'' None
                 (snd (SonoffDIY_request e ''info'' None self))))"
proof -
  obtain s1 where r1: "SonoffDIY_request e ''info'' None self = (Inr data, s1)"
    using assms(1) by (cases "SonoffDIY_request e ''info'' None self") simp
  obtain s2 where r2: "SonoffDIY_request e ''signal_strength'' None s1 = (Inl ex, s2)"
    using assms(2) r1 by (cases "SonoffDIY_request e ''signal_strength'' None s1") simp
  show ?thesis
    by (simp add: SonoffDIY_update_info_def r1 r2)
qed

lemma update_info_both_return:
  assumes "fst (SonoffDIY_request e ''info'' None self) = Inr data"
    and "fst (SonoffDIY_request e ''signal_strength'' None
                (snd (SonoffDIY_request e ''info'' None self))) = Inr strength"
  shows "SonoffDIY_update_info e self =
    (let self2 = snd (SonoffDIY_request e ''signal_strength'' None
                       (snd (SonoffDIY_request e ''info'' None self)))
     in if data = JNull then
          (Inl (SonoffDIYError ''Did not receive data from Sonoff DIY device'' None),
           self2\<lparr>self_info := None\<rparr>)
        else
          (case (if strength \<noteq> JNull then dict_update data strength else Inr data) of
             Inl ex \<Rightarrow> (Inl ex, self2)
           | Inr data' \<Rightarrow>
               (case from_dict (self_device_id self) data' of
                  Inl ex \<Rightarrow> (Inl ex, self2)
                | Inr i \<Rightarrow> (Inr i, self2\<lparr>self_info := Some i\<rparr>))))"
proof -
  obtain s1 where r1: "SonoffDIY_request e ''info'' None self = (Inr data, s1)"
    using assms(1) by (cases "SonoffDIY_request e ''info'' None self") simp
  obtain s2 where r2: "SonoffDIY_request e ''signal_strength'' None s1 = (Inr strength, s2)"
    using assms(2) r1 by (cases "SonoffDIY_request e ''signal_strength'' None s1") simp
  have d: "self_device_id s2 = self_device_id self"
    using request_device_id [of e "''signal_strength''" None s1]
      request_device_id [of e "''info''" None self]
    by (simp add: r1 r2)
  show ?thesis
    by (simp add: SonoffDIY_update_info_def r1 r2 d Let_def cong: sum.case_cong)
qed

lemma update_info_sent:
  "sent (snd (SonoffDIY_update_info e self)) =
     (case fst (SonoffDIY_request e ''info'' None self) of
        Inl ex \<Rightarrow> sent self @ [http_request_of self ''info'' None]
      | Inr data \<Rightarrow>
          sent self @ [http_request_of self ''info'' None,
                       http_request_of self ''signal_strength'' None])"
proof (cases "fst (SonoffDIY_request e ''info'' None self)")
  case (Inl ex)
  then show ?thesis
    by (simp add: update_info_info_raises request_sent)
next
  case (Inr data)
  note r1 = this
  show ?thesis
  proof (cases "fst (SonoffDIY_request e ''signal_strength'' None
                      (snd (SonoffDIY_request e ''info'' None self)))")
    case (Inl ex)
    with r1 show ?thesis
      by (simp add: update_info_signal_raises request_sent)
  next
    case (Inr strength)
    with r1 show ?thesis
      by (simp add: update_info_both_return request_sent Let_def split: sum.splits)
  qed
qed

lemma update_info_request_of [simp]:
  "http_request_of (snd (SonoffDIY_update_info e self)) uri data = http_request_of self uri data"
proof (cases "fst (SonoffDIY_request e ''info'' None self)")
  case (Inl ex)
  then show ?thesis
    by (simp add: update_info_info_raises)
next
  case (Inr data')
  note r1 = this
  show ?thesis
  proof (cases "fst (SonoffDIY_request e ''signal_strength'' None
                      (snd (SonoffDIY_request e ''info'' None self)))")
    case (Inl ex)
    with r1 show ?thesis
      by (simp add: update_info_signal_raises)
  next
    case (Inr strength)
    with r1 show ?thesis
      by (simp add: update_info_both_return Let_def split: sum.splits)
  qed
qed

lemma update_info_returns:
  assumes "fst (SonoffDIY_update_info e self) = Inr i"
  shows "self_info (snd (SonoffDIY_update_info e self)) = Some i"
proof (cases "fst (SonoffDIY_request e ''info'' None self)")
  case (Inl ex)
  with assms show ?thesis
    by (simp add: update_info_info_raises)
next
  case (Inr data')
  note r1 = this
  show ?thesis
  proof (cases "fst (SonoffDIY_request e ''signal_strength'' None
                      (snd (SonoffDIY_request e ''info'' None self)))")
    case (Inl ex)
    with r1 assms show ?thesis
      by (simp add: update_info_signal_raises)
  next
    case (Inr strength)
    with r1 assms show ?thesis
      by (auto simp add: update_info_both_return Let_def split: sum.splits if_splits)
  qed
qed


subsection \<open>The test device, evaluated\<close>

lemma test_request_info:
  "fst (SonoffDIY_request test_env ''info'' None s) =
   Inr (JObj [(''switch'', JStr ''on''), (''startup'', JStr ''stay''), (''pulse'', JStr ''off''),
     (''pulseWidth'', JInt 1500), (''ssid'', JStr ''frenck''), (''otaUnlock'', JBool True)])"
  by (simp add: request_fst test_env_def test_network_def transport_result_ok
      loads_test_info_data)

lemma test_request_signal_strength:
  "fst (SonoffDIY_request test_env ''signal_strength'' None s) =
   Inr (JObj [(''signalStrength'', JInt (- 48))])"
  by (simp add: request_fst test_env_def test_network_def transport_result_ok)

lemma test_update_info:
  "fst (SonoffDIY_update_info test_env s) =
   Inr \<lparr> device_id = self_device_id s, on = True, ota_unlock = JBool True,
         power_on_state = JStr ''restore'', pulse_width = JInt 1500, pulse = False,
         signal_strength_percentage = 100, signal_strength = JInt (- 48),
         ssid = JStr ''frenck'' \<rparr>"
  by (simp add: update_info_both_return [OF test_request_info test_request_signal_strength]
      Let_def dict_get_def STATE_OFF_def STATE_ON_def STATE_STAY_def STATE_RESTORE_def)

lemma test_update_info_state:
  "self_info (snd (SonoffDIY_update_info test_env test_diy)) =
   Some \<lparr> device_id = ''100090ab1a'', on = True, ota_unlock = JBool True,
          power_on_state = JStr ''restore'', pulse_width = JInt 1500, pulse = False,
          signal_strength_percentage = 100, signal_strength = JInt (- 48),
          ssid = JStr ''frenck'' \<rparr>"
  using update_info_returns [OF test_update_info [of test_diy]] by simp








text \<open>
  Claim C9, as amended. When the \<open>info\<close> request returns \<open>None\<close> (a success
  envelope without data), \<open>update_info\<close> has sent both requests, \<open>info\<close> and then
  \<open>signal_strength\<close>, by the time it ends: the test for missing data comes after both.
  If the second request returns, \<open>update_info\<close> clears \<open>self.info\<close> and raises the
  no-data error. If the second request raises, the test for missing data is never
  reached: \<open>update_info\<close> raises that exception, and clears \<open>self.info\<close> exactly when
  the exception is a \<open>SonoffDIYError\<close>.
\<close>

theorem update_info_no_data_after_both:
  assumes "fst (SonoffDIY_request e ''info'' None self) = Inr JNull"
  shows "sent (snd (SonoffDIY_update_info e self)) =
           sent self @ [http_request_of self ''info'' None,
                        http_request_of self ''signal_strength'' None] \<and>
         (fst (SonoffDIY_request e ''signal_strength'' None
                 (snd (SonoffDIY_request e ''info'' None self))) = Inr strength \<longrightarrow>
            SonoffDIY_update_info e self =
              (Inl (SonoffDIYError ''Did not receive data from Sonoff DIY device'' None),
               (snd (SonoffDIY_request e ''signal_strength'' None
                       (snd (SonoffDIY_request e ''info'' None self))))\<lparr>self_info := None\<rparr>)) \<and>
         (fst (SonoffDIY_request e ''signal_strength'' None
                 (snd (SonoffDIY_request e ''info'' None self))) = Inl ex \<longrightarrow>
            SonoffDIY_update_info e self =
              (Inl ex,
               if is_SonoffDIYError ex
               then (snd (SonoffDIY_request e ''signal_strength'' None
                            (snd (SonoffDIY_request e ''info'' None self))))\<lparr>self_info := None\<rparr>
               else snd (SonoffDIY_request e ''signal_strength'' None
                           (snd (SonoffDIY_request e ''info'' None self)))))"
  using assms
  by (simp add: update_info_sent update_info_both_return update_info_signal_raises)

lemma no_data_request_info:
  "fst (SonoffDIY_request no_data_env ''info'' None s) = Inr JNull"
  by (simp add: request_fst no_data_env_def no_data_network_def transport_result_ok)

lemma no_data_request_signal_strength:
  "fst (SonoffDIY_request no_data_env ''signal_strength'' None s) =
   Inr (JObj [(''signalStrength'', JInt (- 48))])"
  by (simp add: request_fst no_data_env_def no_data_network_def test_network_def
      transport_result_ok)

text \<open>The device of \<open>test_no_data\<close>: both requests are sent, then the no-data error
  is raised and no snapshot is held.\<close>

theorem update_info_no_data_after_both_witness:
  "map req_uri (sent (snd (SonoffDIY_update_info no_data_env test_diy))) =
     [''info'', ''signal_strength''] \<and>
   fst (SonoffDIY_update_info no_data_env test_diy) =
     Inl (SonoffDIYError ''Did not receive data from Sonoff DIY device'' None) \<and>
   self_info (snd (SonoffDIY_update_info no_data_env test_diy)) = None"
  using update_info_no_data_after_both [OF no_data_request_info, of test_diy
      "JObj [(''signalStrength'', JInt (- 48))]"]
  by (simp add: no_data_request_signal_strength request_sent)

lemma no_data_broken_request_info:
  "fst (SonoffDIY_request no_data_broken_env ''info'' None s) = Inr JNull"
  by (simp add: request_fst no_data_broken_env_def no_data_broken_network_def
      no_data_network_def transport_result_ok)

lemma no_data_broken_request_signal_strength:
  "fst (SonoffDIY_request no_data_broken_env ''signal_strength'' None s) =
   Inl (PyExc DecodeError)"
  by (simp add: request_fst no_data_broken_env_def no_data_broken_network_def
      broken_network_def transport_result_def header_content_type_def)

text \<open>
  Claim C9 as stated (the no-data error is raised and the snapshot cleared whenever
  \<open>info\<close> carries no data) fails when the second request raises: after a successful
  fetch from the test device, \<open>info\<close> answers without data and \<open>signal_strength\<close>
  answers with a body that is not JSON. Both requests are sent, \<open>update_info\<close> raises
  the decoder's exception and not the no-data error, and the snapshot of the earlier
  fetch is still held.
\<close>

theorem update_info_no_data_second_raises_counterexample:
  "fst (SonoffDIY_request no_data_broken_env ''info'' None
          (snd (SonoffDIY_update_info test_env test_diy))) = Inr JNull \<and>
   map req_uri (sent (snd (SonoffDIY_update_info no_data_broken_env
                            (snd (SonoffDIY_update_info test_env test_diy))))) =
     [''info'', ''signal_strength'', ''info'', ''signal_strength''] \<and>
   fst (SonoffDIY_update_info no_data_broken_env (snd (SonoffDIY_update_info test_env test_diy))) =
     Inl (PyExc DecodeError) \<and>
   fst (SonoffDIY_update_info no_data_broken_env (snd (SonoffDIY_update_info test_env test_diy))) \<noteq>
     Inl (SonoffDIYError ''Did not receive data from Sonoff DIY device'' None) \<and>
   self_info (snd (SonoffDIY_update_info no_data_broken_env
                     (snd (SonoffDIY_update_info test_env test_diy)))) =
     Some \<lparr> device_id = ''100090ab1a'', on = True, ota_unlock = JBool True,
            power_on_state = JStr ''restore'', pulse_width = JInt 1500, pulse = False,
            signal_strength_percentage = 100, signal_strength = JInt (- 48),
            ssid = JStr ''frenck'' \<rparr>"
proof -
  have s: "map req_uri (sent (snd (SonoffDIY_update_info test_env test_diy))) =
      [''info'', ''signal_strength'']"
    by (simp add: update_info_sent test_request_info)
  have t: "map req_uri (sent (snd (SonoffDIY_update_info no_data_broken_env
                            (snd (SonoffDIY_update_info test_env test_diy))))) =
     [''info'', ''signal_strength'', ''info'', ''signal_strength'']"
    by (simp add: update_info_sent [of no_data_broken_env] no_data_broken_request_info s)
  have u: "SonoffDIY_update_info no_data_broken_env (snd (SonoffDIY_update_info test_env test_diy)) =
      (Inl (PyExc DecodeError),
       snd (SonoffDIY_request no_data_broken_env ''signal_strength'' None
              (snd (SonoffDIY_request no_data_broken_env ''info'' None
                      (snd (SonoffDIY_update_info test_env test_diy))))))"
    by (simp add: update_info_signal_raises
          [OF no_data_broken_request_info no_data_broken_request_signal_strength])
  have f: "fst (SonoffDIY_update_info no_data_broken_env
                  (snd (SonoffDIY_update_info test_env test_diy))) = Inl (PyExc DecodeError)"
    by (simp add: u)
  have i: "self_info (snd (SonoffDIY_update_info no_data_broken_env
                     (snd (SonoffDIY_update_info test_env test_diy)))) =
     Some \<lparr> device_id = ''100090ab1a'', on = True, ota_unlock = JBool True,
            power_on_state = JStr ''restore'', pulse_width = JInt 1500, pulse = False,
            signal_strength_percentage = 100, signal_strength = JInt (- 48),
            ssid = JStr ''frenck'' \<rparr>"
    by (simp add: u test_update_info_state)
  from t f i show ?thesis
    by (simp add: no_data_broken_request_info)
qed

text \<open>
  Claim C10. If \<open>update_info\<close> raises, \<open>pulse_width\<close> raises the same exception and
  the requests it has sent are those of \<open>update_info\<close> (\<open>info\<close>, or \<open>info\<close> and
  \<open>signal_strength\<close>): no \<open>pulse\<close> request. If \<open>update_info\<close> returns the snapshot
  \<open>i\<close>, the next and last request goes to \<open>pulse\<close> with \<open>pulse\<close> equal to \<open>on\<close>
  exactly when \<open>i\<close> has \<open>pulse\<close> set, and with the requested \<open>pulse_width\<close>.
\<close>

theorem pulse_width_request:
  "(fst (SonoffDIY_update_info e self) = Inl ex \<longrightarrow>
      SonoffDIY_pulse_width e w self = (Inl ex, snd (SonoffDIY_update_info e self)) \<and>
      map req_uri (drop (length (sent self)) (sent (snd (SonoffDIY_pulse_width e w self))))
        \<in> {[''info''], [''info'', ''signal_strength'']}) \<and>
   (fst (SonoffDIY_update_info e self) = Inr i \<longrightarrow>
      self_info (snd (SonoffDIY_update_info e self)) = Some i \<and>
      sent (snd (SonoffDIY_pulse_width e w self)) =
        sent (snd (SonoffDIY_update_info e self)) @
        [http_request_of self ''pulse''
           (Some [(''pulse'', JStr (if pulse i then ''on'' else ''off'')),
                  (''pulse_width'', JInt w)])] \<and>
      req_uri (last (sent (snd (SonoffDIY_pulse_width e w self)))) = ''pulse'' \<and>
      req_json (last (sent (snd (SonoffDIY_pulse_width e w self)))) =
        JObj [(''deviceid'', JStr (self_device_id self)),
              (''data'', JObj [(''pulse'', JStr (if pulse i then ''on'' else ''off'')),
                               (''pulse_width'', JInt w)])])"
proof (intro conjI impI)
  assume a: "fst (SonoffDIY_update_info e self) = Inl ex"
  then show "SonoffDIY_pulse_width e w self = (Inl ex, snd (SonoffDIY_update_info e self))"
    by (cases "SonoffDIY_update_info e self") (simp add: SonoffDIY_pulse_width_def)
  then show "map req_uri (drop (length (sent self)) (sent (snd (SonoffDIY_pulse_width e w self))))
        \<in> {[''info''], [''info'', ''signal_strength'']}"
    by (simp add: update_info_sent split: sum.splits)
next
  assume a: "fst (SonoffDIY_update_info e self) = Inr i"
  then show s: "self_info (snd (SonoffDIY_update_info e self)) = Some i"
    by (rule update_info_returns)
  obtain s1 where u: "SonoffDIY_update_info e self = (Inr i, s1)"
    using a by (cases "SonoffDIY_update_info e self") simp
  have r: "http_request_of s1 = http_request_of self"
    using update_info_request_of [of e self] by (simp add: u fun_eq_iff)
  have p: "SonoffDIY_pulse_width e w self =
    discard (SonoffDIY_request e ''pulse''
      (Some [(''pulse'', JStr (if pulse i then ''on'' else ''off'')), (''pulse_width'', JInt w)]) s1)"
    using s by (simp add: SonoffDIY_pulse_width_def u STATE_ON_def STATE_OFF_def)
  have q: "\<And>x. snd (discard x) = snd x"
    by (simp add: discard_def split: prod.splits sum.splits)
  show t: "sent (snd (SonoffDIY_pulse_width e w self)) =
        sent (snd (SonoffDIY_update_info e self)) @
        [http_request_of self ''pulse''
           (Some [(''pulse'', JStr (if pulse i then ''on'' else ''off'')),
                  (''pulse_width'', JInt w)])]"
    by (simp add: p q request_sent u r)
  show "req_uri (last (sent (snd (SonoffDIY_pulse_width e w self)))) = ''pulse''"
    by (simp add: t)
  show "req_json (last (sent (snd (SonoffDIY_pulse_width e w self)))) =
        JObj [(''deviceid'', JStr (self_device_id self)),
              (''data'', JObj [(''pulse'', JStr (if pulse i then ''on'' else ''off'')),
                               (''pulse_width'', JInt w)])]"
    by (simp add: t)
qed

lemma error_422_request:
  "fst (SonoffDIY_request error_422_env uri data s) =
     Inl (SonoffDIYError ''Invalid request parameters''
            (Some (JObj [(''seq'', JInt 26), (''error'', JInt 422)])))"
  by (simp add: request_fst error_422_env_def error_422_network_def transport_result_ok
      ERROR_CODES_def)

text \<open>
  A device that reports error 422: only \<open>info\<close> is sent. The test device, whose pulse
  is off: \<open>info\<close>, \<open>signal_strength\<close>, then \<open>pulse\<close> with \<open>off\<close> and width 500.
\<close>

theorem pulse_width_request_witness:
  "fst (SonoffDIY_pulse_width error_422_env 500 test_diy) =
     Inl (SonoffDIYError ''Invalid request parameters''
            (Some (JObj [(''seq'', JInt 26), (''error'', JInt 422)]))) \<and>
   map req_uri (sent (snd (SonoffDIY_pulse_width error_422_env 500 test_diy))) = [''info''] \<and>
   map req_uri (sent (snd (SonoffDIY_pulse_width test_env 500 test_diy))) =
     [''info'', ''signal_strength'', ''pulse''] \<and>
   req_json (last (sent (snd (SonoffDIY_pulse_width test_env 500 test_diy)))) =
     JObj [(''deviceid'', JStr ''100090ab1a''),
           (''data'', JObj [(''pulse'', JStr ''off''), (''pulse_width'', JInt 500)])]"
proof -
  have a: "fst (SonoffDIY_update_info error_422_env test_diy) =
     Inl (SonoffDIYError ''Invalid request parameters''
            (Some (JObj [(''seq'', JInt 26), (''error'', JInt 422)])))"
    by (simp add: update_info_info_raises [OF error_422_request])
  have b: "sent (snd (SonoffDIY_update_info error_422_env test_diy)) =
     [http_request_of test_diy ''info'' None]"
    by (simp add: update_info_sent error_422_request)
  have c: "sent (snd (SonoffDIY_update_info test_env test_diy)) =
     [http_request_of test_diy ''info'' None, http_request_of test_diy ''signal_strength'' None]"
    by (simp add: update_info_sent test_request_info)
  from pulse_width_request [of error_422_env test_diy
      "SonoffDIYError ''Invalid request parameters''
            (Some (JObj [(''seq'', JInt 26), (''error'', JInt 422)]))" 500]
    pulse_width_request [of test_env test_diy _ 500
      "\<lparr> device_id = ''100090ab1a'', on = True, ota_unlock = JBool True,
         power_on_state = JStr ''restore'', pulse_width = JInt 1500, pulse = False,
         signal_strength_percentage = 100, signal_strength = JInt (- 48),
         ssid = JStr ''frenck'' \<rparr>"]
  show ?thesis
    by (simp add: a b c test_update_info)
qed







text \<open>
  Claim C1, as amended. For every state string outside \<open>on\<close>, \<open>off\<close>, \<open>restore\<close> and
  \<open>stay\<close>, \<open>power_on_state\<close> raises \<open>SonoffDIYError\<close> ("Invalid startup value, accepted:
  on, off, restore") and leaves the client as it was: nothing is sent.
\<close>

theorem power_on_state_invalid:
  assumes "state \<notin> {''on'', ''off'', ''restore'', ''stay''}"
  shows "SonoffDIY_power_on_state e state self =
    (Inl (SonoffDIYError ''Invalid startup value, accepted: on, off, restore'' None), self)"
  using assms
  by (simp add: SonoffDIY_power_on_state_def STATE_ON_def STATE_OFF_def STATE_RESTORE_def
      STATE_STAY_def)

text \<open>The value \<open>bogus\<close> is refused and nothing is sent.\<close>

theorem power_on_state_invalid_witness:
  "SonoffDIY_power_on_state test_env ''bogus'' test_diy =
    (Inl (SonoffDIYError ''Invalid startup value, accepted: on, off, restore'' None), test_diy) \<and>
   sent (snd (SonoffDIY_power_on_state test_env ''bogus'' test_diy)) = []"
  using power_on_state_invalid [of "''bogus''" test_env test_diy]
  by simp

lemma snd_discard [simp]: "snd (discard x) = snd x"
  by (simp add: discard_def split: prod.splits sum.splits)

lemma fst_discard_Inr: "fst x = Inr v \<Longrightarrow> fst (discard x) = Inr ()"
  by (cases x) (simp add: discard_def)

lemma test_request_other:
  "uri \<noteq> ''info'' \<Longrightarrow> uri \<noteq> ''signal_strength'' \<Longrightarrow>
   fst (SonoffDIY_request test_env uri data s) = Inr JNull"
  by (simp add: request_fst test_env_def test_network_def transport_result_ok)

text \<open>
  Claim C1 as stated (every string outside \<open>on\<close>, \<open>off\<close>, \<open>restore\<close>) fails at
  \<open>stay\<close>: the membership test admits \<open>STATE_STAY\<close>, the call returns, and one request
  with \<open>startup\<close> set to \<open>stay\<close> has been sent.
\<close>

theorem power_on_state_stay_counterexample:
  "''stay'' \<notin> {''on'', ''off'', ''restore''} \<and>
   fst (SonoffDIY_power_on_state test_env ''stay'' test_diy) = Inr () \<and>
   map req_uri (sent (snd (SonoffDIY_power_on_state test_env ''stay'' test_diy))) = [''startup''] \<and>
   map req_json (sent (snd (SonoffDIY_power_on_state test_env ''stay'' test_diy))) =
     [JObj [(''deviceid'', JStr ''100090ab1a''),
            (''data'', JObj [(''startup'', JStr ''stay'')])]]"
proof -
  have "fst (SonoffDIY_request test_env ''startup'' (Some [(''startup'', JStr ''stay'')]) test_diy)
      = Inr JNull"
    by (simp add: test_request_other)
  then show ?thesis
    by (simp add: SonoffDIY_power_on_state_def STATE_ON_def STATE_OFF_def STATE_RESTORE_def
        STATE_STAY_def fst_discard_Inr request_sent)
qed

text \<open>
  Claim C4. A snapshot made from data whose \<open>startup\<close> is \<open>stay\<close> has
  \<open>power_on_state\<close> equal to \<open>restore\<close>; no snapshot has \<open>power_on_state\<close> equal to
  \<open>stay\<close>; and \<open>power_on_state\<close> called with \<open>on\<close>, \<open>off\<close> or \<open>restore\<close> sends one
  request to \<open>startup\<close> whose payload maps \<open>startup\<close> to \<open>stay\<close> for \<open>restore\<close> and
  to the given string for \<open>on\<close> and \<open>off\<close>.
\<close>

theorem stay_restore_round_trip:
  "(from_dict dev (JObj data) = Inr i \<and> map_of data ''startup'' = Some (JStr ''stay'') \<longrightarrow>
      power_on_state i = JStr ''restore'') \<and>
   (from_dict dev v = Inr i \<longrightarrow> power_on_state i \<noteq> JStr ''stay'') \<and>
   (state \<in> {''on'', ''off'', ''restore''} \<longrightarrow>
      sent (snd (SonoffDIY_power_on_state e state self)) =
        sent self @
        [http_request_of self ''startup''
           (Some [(''startup'', JStr (if state = ''restore'' then ''stay'' else state))])] \<and>
      req_uri (last (sent (snd (SonoffDIY_power_on_state e state self)))) = ''startup'' \<and>
      req_json (last (sent (snd (SonoffDIY_power_on_state e state self)))) =
        JObj [(''deviceid'', JStr (self_device_id self)),
              (''data'', JObj [(''startup'',
                 JStr (if state = ''restore'' then ''stay'' else state))])])"
proof (intro conjI impI)
  assume "from_dict dev (JObj data) = Inr i \<and> map_of data ''startup'' = Some (JStr ''stay'')"
  then show "power_on_state i = JStr ''restore''"
    by (auto simp add: Let_def dict_get_def STATE_STAY_def STATE_RESTORE_def
        split: option.splits)
next
  assume "from_dict dev v = Inr i"
  then show "power_on_state i \<noteq> JStr ''stay''"
    by (cases v)
      (auto simp add: Let_def STATE_STAY_def STATE_RESTORE_def split: option.splits if_splits)
next
  assume a: "state \<in> {''on'', ''off'', ''restore''}"
  then show s: "sent (snd (SonoffDIY_power_on_state e state self)) =
        sent self @
        [http_request_of self ''startup''
           (Some [(''startup'', JStr (if state = ''restore'' then ''stay'' else state))])]"
    by (auto simp add: SonoffDIY_power_on_state_def STATE_ON_def STATE_OFF_def
        STATE_RESTORE_def STATE_STAY_def request_sent)
  show "req_uri (last (sent (snd (SonoffDIY_power_on_state e state self)))) = ''startup''"
    by (simp add: s)
  show "req_json (last (sent (snd (SonoffDIY_power_on_state e state self)))) =
        JObj [(''deviceid'', JStr (self_device_id self)),
              (''data'', JObj [(''startup'',
                 JStr (if state = ''restore'' then ''stay'' else state))])]"
    by (simp add: s)
qed

text \<open>Reading \<open>stay\<close> gives \<open>restore\<close>; writing \<open>restore\<close> sends \<open>stay\<close>, writing
  \<open>on\<close> and \<open>off\<close> sends them unchanged.\<close>

theorem stay_restore_round_trip_witness:
  "from_dict ''100090ab1a'' (JObj [(''startup'', JStr ''stay'')]) =
     Inr \<lparr> device_id = ''100090ab1a'', on = False, ota_unlock = JBool False,
           power_on_state = JStr ''restore'', pulse_width = JInt 0, pulse = False,
           signal_strength_percentage = 0, signal_strength = JInt (- 100),
           ssid = JStr [] \<rparr> \<and>
   map req_json (sent (snd (SonoffDIY_power_on_state test_env ''restore'' test_diy))) =
     [JObj [(''deviceid'', JStr ''100090ab1a''),
            (''data'', JObj [(''startup'', JStr ''stay'')])]] \<and>
   map req_json (sent (snd (SonoffDIY_power_on_state test_env ''on'' test_diy))) =
     [JObj [(''deviceid'', JStr ''100090ab1a''),
            (''data'', JObj [(''startup'', JStr ''on'')])]] \<and>
   map req_json (sent (snd (SonoffDIY_power_on_state test_env ''off'' test_diy))) =
     [JObj [(''deviceid'', JStr ''100090ab1a''),
            (''data'', JObj [(''startup'', JStr ''off'')])]]"
proof -
  have f: "from_dict ''100090ab1a'' (JObj [(''startup'', JStr ''stay'')]) =
     Inr \<lparr> device_id = ''100090ab1a'', on = False, ota_unlock = JBool False,
           power_on_state = JStr ''restore'', pulse_width = JInt 0, pulse = False,
           signal_strength_percentage = 0, signal_strength = JInt (- 100),
           ssid = JStr [] \<rparr>"
    by (simp add: Let_def dict_get_def STATE_OFF_def STATE_ON_def STATE_STAY_def
        STATE_RESTORE_def)
  from f stay_restore_round_trip [of "''100090ab1a''" "[(''startup'', JStr ''stay'')]"
      "\<lparr> device_id = ''100090ab1a'', on = False, ota_unlock = JBool False,
           power_on_state = JStr ''restore'', pulse_width = JInt 0, pulse = False,
           signal_strength_percentage = 0, signal_strength = JInt (- 100),
           ssid = JStr [] \<rparr>" "JObj [(''startup'', JStr ''stay'')]" "''restore''" test_env test_diy]
    stay_restore_round_trip [of "''100090ab1a''" "[(''startup'', JStr ''stay'')]"
      "\<lparr> device_id = ''100090ab1a'', on = False, ota_unlock = JBool False,
           power_on_state = JStr ''restore'', pulse_width = JInt 0, pulse = False,
           signal_strength_percentage = 0, signal_strength = JInt (- 100),
           ssid = JStr [] \<rparr>" "JObj [(''startup'', JStr ''stay'')]" "''on''" test_env test_diy]
    stay_restore_round_trip [of "''100090ab1a''" "[(''startup'', JStr ''stay'')]"
      "\<lparr> device_id = ''100090ab1a'', on = False, ota_unlock = JBool False,
           power_on_state = JStr ''restore'', pulse_width = JInt 0, pulse = False,
           signal_strength_percentage = 0, signal_strength = JInt (- 100),
           ssid = JStr [] \<rparr>" "JObj [(''startup'', JStr ''stay'')]" "''off''" test_env test_diy]
  show ?thesis
    by (simp add: http_request_of_def)
qed

text \<open>
  Claim C8, as amended. On every dict whose \<open>signalStrength\<close> is an integer or missing,
  \<open>from_dict\<close> returns a snapshot; its percentage lies between 0 and 100; its
  \<open>pulse_width\<close> is the value of \<open>pulseWidth\<close> as the device sent it (0 when missing),
  whatever its sign; and every missing key takes its default.
\<close>

theorem from_dict_typed:
  assumes "map_of data ''signalStrength'' = None \<or> map_of data ''signalStrength'' = Some (JInt n)"
  shows "\<exists>i. from_dict dev (JObj data) = Inr i \<and>
           0 \<le> signal_strength_percentage i \<and> signal_strength_percentage i \<le> 100 \<and>
           pulse_width i = dict_get data ''pulseWidth'' (JInt 0) \<and>
           (map_of data ''pulseWidth'' = None \<longrightarrow> pulse_width i = JInt 0) \<and>
           (map_of data ''pulseWidth'' = Some (JInt w) \<longrightarrow> pulse_width i = JInt w) \<and>
           (map_of data ''switch'' = None \<longrightarrow> \<not> on i) \<and>
           (map_of data ''otaUnlock'' = None \<longrightarrow> ota_unlock i = JBool False) \<and>
           (map_of data ''startup'' = None \<longrightarrow> power_on_state i = JStr ''off'') \<and>
           (map_of data ''pulse'' = None \<longrightarrow> \<not> pulse i) \<and>
           (map_of data ''signalStrength'' = None \<longrightarrow> signal_strength i = JInt (- 100)) \<and>
           (map_of data ''ssid'' = None \<longrightarrow> ssid i = JStr [])"
proof -
  obtain m where m: "dict_get data ''signalStrength'' (JInt (- 100)) = JInt m"
    using assms by (auto simp add: dict_get_def)
  show ?thesis
    unfolding from_dict_int [OF m] using assms m by (auto simp add: dict_get_def)
qed

text \<open>The empty dict takes every default; a dict with \<open>pulseWidth\<close> 1500 and
  \<open>signalStrength\<close> -60 gives 1500 and 80.\<close>

theorem from_dict_typed_witness:
  "(\<exists>i. from_dict ''d'' (JObj []) = Inr i \<and>
        signal_strength_percentage i = 0 \<and> pulse_width i = JInt 0 \<and> \<not> on i \<and>
        ota_unlock i = JBool False \<and> power_on_state i = JStr ''off'' \<and> \<not> pulse i \<and>
        signal_strength i = JInt (- 100) \<and> ssid i = JStr []) \<and>
   (\<exists>i. from_dict ''d'' (JObj [(''pulseWidth'', JInt 1500), (''signalStrength'', JInt (- 60))])
          = Inr i \<and> signal_strength_percentage i = 80 \<and> pulse_width i = JInt 1500)"
proof -
  have a: "from_dict ''d'' (JObj []) =
     Inr \<lparr> device_id = ''d'', on = False, ota_unlock = JBool False,
           power_on_state = JStr ''off'', pulse_width = JInt 0, pulse = False,
           signal_strength_percentage = 0, signal_strength = JInt (- 100),
           ssid = JStr [] \<rparr>"
    by (simp add: Let_def dict_get_def STATE_OFF_def STATE_ON_def STATE_STAY_def
        STATE_RESTORE_def)
  have b: "from_dict ''d'' (JObj [(''pulseWidth'', JInt 1500), (''signalStrength'', JInt (- 60))]) =
     Inr \<lparr> device_id = ''d'', on = False, ota_unlock = JBool False,
           power_on_state = JStr ''off'', pulse_width = JInt 1500, pulse = False,
           signal_strength_percentage = 80, signal_strength = JInt (- 60),
           ssid = JStr [] \<rparr>"
    by (simp add: Let_def dict_get_def STATE_OFF_def STATE_ON_def STATE_STAY_def
        STATE_RESTORE_def)
  from from_dict_typed [of "[]" 0 "''d''" 0]
    from_dict_typed [of "[(''pulseWidth'', JInt 1500), (''signalStrength'', JInt (- 60))]"
      "- 60" "''d''" 1500]
  show ?thesis
    by (simp add: a b del: from_dict.simps)
qed

text \<open>
  Claim C8 as stated (\<open>pulse_width\<close> at least 0 for every integer input) fails:
  \<open>from_dict\<close> copies a negative \<open>pulseWidth\<close> into the snapshot.
\<close>

theorem from_dict_negative_pulse_width_counterexample:
  "from_dict ''100090ab1a'' (JObj [(''pulseWidth'', JInt (- 5))]) =
     Inr \<lparr> device_id = ''100090ab1a'', on = False, ota_unlock = JBool False,
           power_on_state = JStr ''off'', pulse_width = JInt (- 5), pulse = False,
           signal_strength_percentage = 0, signal_strength = JInt (- 100),
           ssid = JStr [] \<rparr> \<and>
   \<not> (0 \<le> (- 5 :: int))"
  by (simp add: Let_def dict_get_def STATE_OFF_def STATE_ON_def STATE_STAY_def
      STATE_RESTORE_def)

end
